theory Spec2Isabelle
  imports Complex_Main "HOL-Library.Word"
begin

unbundle bit_operations_syntax

section \<open>The gravitational bit (booster.py, class GravitationalBit)\<close>

text \<open>
  Python integers are unbounded and are modelled as \<open>int\<close>. Python floats (energy, phase,
  the field strength, the time step) are idealised as \<open>real\<close>; no property below depends
  on a rounded value. The field names \<open>n\<close>, \<open>l\<close>, \<open>m\<close> of the dataclass are written
  \<open>orb_n\<close>, \<open>orb_l\<close>, \<open>orb_m\<close> so that they do not capture variable names.
\<close>

record OrbitalState =
  orb_n :: int
  orb_l :: int
  orb_m :: int
  occupied :: bool
  energy :: real
  phase :: real

record GravitationalBit =
  n_max :: int
  nucleus_field :: real
  states :: "OrbitalState list"
  operation_count :: int

text \<open>
  The three nested loops of the constructor: \<open>range(1, n_max + 1)\<close> is \<open>[1..n_max]\<close>,
  \<open>range(n)\<close> is \<open>[0..n - 1]\<close> and \<open>range(-l, l + 1)\<close> is \<open>[- l..l]\<close>; each is empty when
  its upper end lies below its lower end, as the Python range is.
\<close>

definition new_state :: "int \<Rightarrow> int \<Rightarrow> int \<Rightarrow> OrbitalState" where
  "new_state n l m =
     \<lparr>orb_n = n, orb_l = l, orb_m = m, occupied = False,
      energy = - (136 / 10) / of_int (n * n), phase = 0\<rparr>"

definition states_of_shell :: "int \<Rightarrow> OrbitalState list" where
  "states_of_shell n = concat (map (\<lambda>l. map (\<lambda>m. new_state n l m) [- l..l]) [0..n - 1])"

definition generate_states :: "int \<Rightarrow> OrbitalState list" where
  "generate_states L = concat (map states_of_shell [1..L])"

definition GravitationalBit_init :: "int \<Rightarrow> GravitationalBit" where
  "GravitationalBit_init compression_level =
     \<lparr>n_max = compression_level, nucleus_field = 1,
      states = generate_states compression_level, operation_count = 0\<rparr>"

text \<open>
  \<open>encode\<close>: slot \<open>i\<close> becomes occupied when \<open>(value >> i) & 1\<close> is truthy, and an occupied
  slot draws \<open>random() * 2 * pi\<close> as its phase. The outcome of the draw made at slot \<open>i\<close>
  is the parameter \<open>rnd i\<close>: the function is given the results of the random calls it
  makes.
\<close>

definition encode_state :: "(nat \<Rightarrow> real) \<Rightarrow> int \<Rightarrow> nat \<Rightarrow> OrbitalState \<Rightarrow> OrbitalState" where
  "encode_state rnd v i s =
     (let occ = ((drop_bit i v AND 1) \<noteq> 0)
      in s\<lparr>occupied := occ, phase := (if occ then rnd i * 2 * pi else 0)\<rparr>)"

definition encode :: "(nat \<Rightarrow> real) \<Rightarrow> int \<Rightarrow> GravitationalBit \<Rightarrow> GravitationalBit" where
  "encode rnd v b =
     b\<lparr>states := map (\<lambda>(i, s). encode_state rnd v i s) (enumerate 0 (states b)),
       operation_count := operation_count b + 1\<rparr>"

text \<open>\<open>decode\<close>: \<open>value |= (1 << i)\<close> for every occupied slot; it returns the value and
  counts one operation.\<close>

definition decode_step :: "int \<Rightarrow> nat \<times> OrbitalState \<Rightarrow> int" where
  "decode_step v p = (if occupied (snd p) then v OR push_bit (fst p) 1 else v)"

definition decode_value :: "OrbitalState list \<Rightarrow> int" where
  "decode_value sts = foldl decode_step 0 (enumerate 0 sts)"

definition decode :: "GravitationalBit \<Rightarrow> int \<times> GravitationalBit" where
  "decode b = (decode_value (states b), b\<lparr>operation_count := operation_count b + 1\<rparr>)"

text \<open>Python's \<open>x % y\<close> on floats, for a positive \<open>y\<close>: the remainder of the floor
  division.\<close>

definition float_mod :: "real \<Rightarrow> real \<Rightarrow> real" where
  "float_mod x y = x - y * of_int \<lfloor>x / y\<rfloor>"

definition propagate_state :: "real \<Rightarrow> real \<Rightarrow> OrbitalState \<Rightarrow> OrbitalState" where
  "propagate_state dt field s =
     (if occupied s then s\<lparr>phase := float_mod (phase s + energy s * dt * field) (2 * pi)\<rparr>
      else s)"

definition propagate :: "real \<Rightarrow> GravitationalBit \<Rightarrow> GravitationalBit" where
  "propagate dt b =
     b\<lparr>states := map (propagate_state dt (nucleus_field b)) (states b),
       operation_count := operation_count b + 1\<rparr>"

definition verify_integrity :: "int \<Rightarrow> GravitationalBit \<Rightarrow> bool \<times> GravitationalBit" where
  "verify_integrity original_value b =
     (case decode b of (decoded, b') \<Rightarrow> (decoded = original_value, b'))"

text \<open>A sequence of \<open>propagate\<close> calls, one per time step of the list.\<close>

definition propagate_all :: "real list \<Rightarrow> GravitationalBit \<Rightarrow> GravitationalBit" where
  "propagate_all dts b = foldl (\<lambda>b dt. propagate dt b) b dts"


section \<open>Python values\<close>

text \<open>
  A Python \<open>str\<close> is the list of its Unicode code points: \<open>length\<close> is \<open>len\<close>. A literal of
  the program is written \<open>lit ''...''\<close>.
\<close>

type_synonym pystr = "nat list"

definition lit :: "string \<Rightarrow> pystr" where
  "lit s = map of_char s"

text \<open>The values \<open>response.json()\<close> can return, which are also the values \<open>ask\<close> can
  return: \<open>None\<close>, booleans, numbers, strings, lists and dictionaries with string keys.\<close>

datatype json =
  JNull | JBool bool | JInt int | JFloat real | JStr pystr
  | JArr "json list" | JObj "(pystr \<times> json) list"

text \<open>
  The exceptions the program can meet, each with what it was raised with: the missing key
  of a \<open>KeyError\<close>, the message of an \<open>IndexError\<close> or \<open>ValueError\<close>, the operation and the
  operand of a \<open>TypeError\<close>, the object of an \<open>AttributeError\<close>, and the text of whatever
  the completion boundary raised.
\<close>

datatype py_op = OpContains | OpGetItem

datatype py_exception =
  KeyError json | IndexError pystr | TypeError py_op json | AttributeError json
  | ValueError pystr | BoundaryError pystr

type_synonym 'a raises = "py_exception + 'a"

text \<open>
  What the program takes from the Python library and the interpreter, as parameters of
  the model: \<open>md5 text\<close> is the 128-bit digest \<open>hashlib.md5(text.encode())\<close>, for a text
  UTF-8 can encode (a text with a lone surrogate makes \<open>encode()\<close> raise before anything is
  stored, and is left out); \<open>unicode_lower\<close> is \<open>str.lower\<close> on a string with a code point outside ASCII (the Unicode
  case tables); \<open>py_repr\<close> is \<open>repr\<close>; the two texts are the messages the interpreter
  gives a \<open>TypeError\<close> and an \<open>AttributeError\<close>.
\<close>

record python =
  md5 :: "pystr \<Rightarrow> 128 word"
  unicode_lower :: "pystr \<Rightarrow> pystr"
  py_repr :: "json \<Rightarrow> pystr"
  type_error_text :: "py_op \<Rightarrow> json \<Rightarrow> pystr"
  attribute_error_text :: "json \<Rightarrow> pystr"

text \<open>\<open>str(x)\<close>: a string is itself, every other value prints as its \<open>repr\<close>.\<close>

definition py_str :: "python \<Rightarrow> json \<Rightarrow> pystr" where
  "py_str P v = (case v of JStr s \<Rightarrow> s | _ \<Rightarrow> py_repr P v)"

text \<open>\<open>str(e)\<close>: a \<open>KeyError\<close> prints the \<open>repr\<close> of its key.\<close>

definition exc_str :: "python \<Rightarrow> py_exception \<Rightarrow> pystr" where
  "exc_str P e =
     (case e of
        KeyError k \<Rightarrow> py_repr P k
      | IndexError msg \<Rightarrow> msg
      | TypeError op v \<Rightarrow> type_error_text P op v
      | AttributeError v \<Rightarrow> attribute_error_text P v
      | ValueError msg \<Rightarrow> msg
      | BoundaryError msg \<Rightarrow> msg)"

section \<open>Python strings\<close>

text \<open>The whitespace of \<open>str.split()\<close> and \<open>str.isspace\<close>: the code points 9 to 13, 28 to
  32, U+0085, U+00A0, U+1680, U+2000 to U+200A, U+2028, U+2029, U+202F, U+205F and
  U+3000.\<close>

definition is_space :: "nat \<Rightarrow> bool" where
  "is_space c =
     ((9 \<le> c \<and> c \<le> 13) \<or> (28 \<le> c \<and> c \<le> 32) \<or> c = 0x85 \<or> c = 0xA0 \<or> c = 0x1680 \<or>
      (0x2000 \<le> c \<and> c \<le> 0x200A) \<or> c = 0x2028 \<or> c = 0x2029 \<or> c = 0x202F \<or>
      c = 0x205F \<or> c = 0x3000)"

definition is_ascii :: "pystr \<Rightarrow> bool" where
  "is_ascii s = list_all (\<lambda>c. c < 128) s"

text \<open>\<open>str.lower\<close>: on an ASCII string it maps \<open>A\<close>..\<open>Z\<close> to \<open>a\<close>..\<open>z\<close> and keeps every other
  character; on any other string it is the parameter \<open>unicode_lower\<close>, which may change
  the length of the string.\<close>

definition lower_char :: "nat \<Rightarrow> nat" where
  "lower_char c = (if 65 \<le> c \<and> c \<le> 90 then c + 32 else c)"

definition py_lower :: "python \<Rightarrow> pystr \<Rightarrow> pystr" where
  "py_lower P s = (if is_ascii s then map lower_char s else unicode_lower P s)"

text \<open>\<open>s.split()\<close>: the maximal runs of non-whitespace characters, in order. The first
  argument is the run read so far.\<close>

fun split_run :: "pystr \<Rightarrow> pystr \<Rightarrow> pystr list" where
  "split_run cur [] = (if cur = [] then [] else [cur])"
| "split_run cur (c # cs) =
     (if is_space c then (if cur = [] then split_run [] cs else cur # split_run [] cs)
      else split_run (cur @ [c]) cs)"

definition py_split :: "pystr \<Rightarrow> pystr list" where
  "py_split s = split_run [] s"

text \<open>\<open>w.strip(chars)\<close> removes the characters of \<open>chars\<close> from both ends.\<close>

definition py_strip :: "pystr \<Rightarrow> pystr \<Rightarrow> pystr" where
  "py_strip chars w =
     rev (dropWhile (\<lambda>c. c \<in> set chars) (rev (dropWhile (\<lambda>c. c \<in> set chars) w)))"

text \<open>The punctuation both tokenizers strip: the full stop, comma, exclamation mark,
  question mark, semicolon, colon, double quote (34), single quote (39), and the round,
  square and curly brackets.\<close>

definition punctuation :: pystr where
  "punctuation = lit ''.,!?;:'' @ [34, 39] @ lit ''()[]{}''"

fun py_join :: "pystr \<Rightarrow> pystr list \<Rightarrow> pystr" where
  "py_join sep [] = []"
| "py_join sep [x] = x"
| "py_join sep (x # y # ys) = x @ sep @ py_join sep (y # ys)"

text \<open>\<open>xs[:k]\<close>: a negative \<open>k\<close> counts from the end.\<close>

definition py_take :: "int \<Rightarrow> 'a list \<Rightarrow> 'a list" where
  "py_take k xs = (if 0 \<le> k then take (nat k) xs else take (length xs - nat (- k)) xs)"

text \<open>A Python dictionary keeps its keys in insertion order, and three places of the
  program read that order; it is an association list with distinct keys. Assigning to a
  key that is present replaces the value in place.\<close>

fun dict_set :: "('k \<times> 'v) list \<Rightarrow> 'k \<Rightarrow> 'v \<Rightarrow> ('k \<times> 'v) list" where
  "dict_set [] k v = [(k, v)]"
| "dict_set ((k', v') # d) k v =
     (if k' = k then (k, v) # d else (k', v') # dict_set d k v)"



section \<open>The gravitational memory (class GravitationalMemory)\<close>

record Fragment =
  frag_bit :: GravitationalBit
  frag_text :: pystr
  frag_hash :: int
  frag_integrity :: bool

record Stats =
  total_chunks :: int
  total_bits :: int
  indexed_keywords :: int

record GravitationalMemory =
  compression_level :: int
  storage :: "(pystr \<times> Fragment) list"
  index :: "(pystr \<times> pystr list) list"
  stats :: Stats

definition GravitationalMemory_init :: "int \<Rightarrow> GravitationalMemory" where
  "GravitationalMemory_init level =
     \<lparr>compression_level = level, storage = [], index = [],
      stats = \<lparr>total_chunks = 0, total_bits = 0, indexed_keywords = 0\<rparr>\<rparr>"

text \<open>The keyword loop of \<open>store_chunk\<close>: a word absent from the index gets an empty list
  first, then the chunk id is appended to the word's list.\<close>

definition index_append :: "(pystr \<times> pystr list) list \<Rightarrow> pystr \<Rightarrow> pystr \<Rightarrow> (pystr \<times> pystr list) list" where
  "index_append idx word chunk_id =
     (case map_of idx word of
        None \<Rightarrow> dict_set idx word [chunk_id]
      | Some ids \<Rightarrow> dict_set idx word (ids @ [chunk_id]))"

fun index_words :: "(pystr \<times> pystr list) list \<Rightarrow> pystr \<Rightarrow> pystr list \<Rightarrow> (pystr \<times> pystr list) list" where
  "index_words idx chunk_id [] = idx"
| "index_words idx chunk_id (word # words) =
     (let word_clean = py_strip punctuation word
      in if 3 < length word_clean
         then index_words (index_append idx word_clean chunk_id) chunk_id words
         else index_words idx chunk_id words)"

record ChunkResult =
  res_chunk_id :: pystr
  res_states :: int
  res_integrity :: bool

text \<open>\<open>store_chunk\<close>; \<open>rnd\<close> holds the outcomes of the random draws of its \<open>encode\<close>.\<close>

definition store_chunk :: "python \<Rightarrow> (nat \<Rightarrow> real) \<Rightarrow> pystr \<Rightarrow> pystr \<Rightarrow> GravitationalMemory \<Rightarrow> ChunkResult \<times> GravitationalMemory" where
  "store_chunk P rnd chunk_id text mem =
     (let b0 = GravitationalBit_init (compression_level mem);
          text_hash = uint (md5 P text);
          b1 = encode rnd (text_hash mod 2 ^ length (states b0)) b0;
          (original, b2) = decode b1;
          b3 = propagate (1 / 100) b2;
          (integrity, b4) = verify_integrity original b3;
          storage' = dict_set (storage mem) chunk_id
            \<lparr>frag_bit = b4, frag_text = text, frag_hash = text_hash, frag_integrity = integrity\<rparr>;
          index' = index_words (index mem) chunk_id (py_split (py_lower P text));
          stats' = \<lparr>total_chunks = total_chunks (stats mem) + 1,
                    total_bits = total_bits (stats mem) + 1,
                    indexed_keywords = int (length index')\<rparr>
      in (\<lparr>res_chunk_id = chunk_id, res_states = int (length (states b4)),
           res_integrity = integrity\<rparr>,
          mem\<lparr>storage := storage', index := index', stats := stats'\<rparr>))"

text \<open>A sequence of \<open>store_chunk\<close> calls on one memory; every call comes with the outcomes
  of its random draws.\<close>

definition store_chunks :: "python \<Rightarrow> ((nat \<Rightarrow> real) \<times> pystr \<times> pystr) list \<Rightarrow> GravitationalMemory \<Rightarrow> GravitationalMemory" where
  "store_chunks P calls mem =
     foldl (\<lambda>m (rnd, chunk_id, text). snd (store_chunk P rnd chunk_id text m)) mem calls"






subsection \<open>Retrieval\<close>

definition query_words :: "python \<Rightarrow> pystr \<Rightarrow> pystr list" where
  "query_words P query =
     map (\<lambda>w. py_strip punctuation (py_lower P w)) (filter (\<lambda>w. 3 < length w) (py_split query))"

text \<open>\<open>scores[chunk_id] = scores.get(chunk_id, 0) + 1\<close>, for every id of the list of every
  query word the index has.\<close>

definition score_hit :: "(pystr \<times> int) list \<Rightarrow> pystr \<Rightarrow> (pystr \<times> int) list" where
  "score_hit scores chunk_id =
     dict_set scores chunk_id ((case map_of scores chunk_id of None \<Rightarrow> 0 | Some c \<Rightarrow> c) + 1)"

definition score_word :: "(pystr \<times> pystr list) list \<Rightarrow> (pystr \<times> int) list \<Rightarrow> pystr \<Rightarrow> (pystr \<times> int) list" where
  "score_word idx scores word =
     (case map_of idx word of None \<Rightarrow> scores | Some ids \<Rightarrow> foldl score_hit scores ids)"

definition score_chunks :: "(pystr \<times> pystr list) list \<Rightarrow> pystr list \<Rightarrow> (pystr \<times> int) list" where
  "score_chunks idx words = foldl (score_word idx) [] words"

text \<open>\<open>scores.get\<close> as the sort key; it is only applied to keys of \<open>scores\<close>.\<close>

definition scores_get :: "(pystr \<times> int) list \<Rightarrow> pystr \<Rightarrow> int" where
  "scores_get scores k = (case map_of scores k of None \<Rightarrow> 0 | Some c \<Rightarrow> c)"

text \<open>\<open>sorted(scores, key=scores.get, reverse=True)\<close>: Python's sort is stable, also with
  \<open>reverse=True\<close>, so the keys come out by descending score and keys of equal score
  keep the order of the dictionary. That is the stable insertion sort on the negated key.\<close>

definition sorted_by_score :: "(pystr \<times> int) list \<Rightarrow> pystr list" where
  "sorted_by_score scores = sort_key (\<lambda>k. - scores_get scores k) (map fst scores)"

definition top_chunks :: "python \<Rightarrow> GravitationalMemory \<Rightarrow> pystr \<Rightarrow> int \<Rightarrow> pystr list" where
  "top_chunks P mem query top_k =
     (let scores = score_chunks (index mem) (query_words P query)
      in if scores = [] then py_take top_k (map fst (storage mem))
         else py_take top_k (sorted_by_score scores))"

definition retrieve_relevant_context :: "python \<Rightarrow> GravitationalMemory \<Rightarrow> pystr \<Rightarrow> int \<Rightarrow> pystr" where
  "retrieve_relevant_context P mem query top_k =
     py_join [10, 10]
       (concat (map (\<lambda>chunk_id. case map_of (storage mem) chunk_id of
                                   None \<Rightarrow> [] | Some f \<Rightarrow> [frag_text f])
                  (top_chunks P mem query top_k)))"

section \<open>The booster (class LLMRAGBooster and the module interface)\<close>

record LLMRAGBooster =
  api_url :: pystr
  api_key :: pystr
  model :: pystr
  memory :: GravitationalMemory
  booster_level :: int

definition LLMRAGBooster_init :: "pystr \<Rightarrow> pystr \<Rightarrow> pystr \<Rightarrow> int \<Rightarrow> LLMRAGBooster" where
  "LLMRAGBooster_init url key model_name level =
     \<lparr>api_url = url, api_key = key, model = model_name,
      memory = GravitationalMemory_init level, booster_level = level\<rparr>"

definition and_then :: "'a raises \<Rightarrow> ('a \<Rightarrow> 'b raises) \<Rightarrow> 'b raises" where
  "and_then r f = (case r of Inl e \<Rightarrow> Inl e | Inr x \<Rightarrow> f x)"

fun starts_with :: "pystr \<Rightarrow> pystr \<Rightarrow> bool" where
  "starts_with s [] = True"
| "starts_with [] (c # cs) = False"
| "starts_with (d # ds) (c # cs) = (d = c \<and> starts_with ds cs)"

fun has_substring :: "pystr \<Rightarrow> pystr \<Rightarrow> bool" where
  "has_substring [] k = starts_with [] k"
| "has_substring (d # ds) k = (starts_with (d # ds) k \<or> has_substring ds k)"

text \<open>\<open>k in data\<close> for a string \<open>k\<close>: key membership in a dictionary, element membership
  in a list, the substring test on a string, \<open>TypeError\<close> on anything else.\<close>

fun py_in :: "pystr \<Rightarrow> json \<Rightarrow> bool raises" where
  "py_in k (JObj kvs) = Inr (map_of kvs k \<noteq> None)"
| "py_in k (JArr xs) = Inr (JStr k \<in> set xs)"
| "py_in k (JStr s) = Inr (has_substring s k)"
| "py_in k v = Inl (TypeError OpContains v)"

text \<open>\<open>data[k]\<close> for a string \<open>k\<close>: the value of the key in a dictionary, \<open>KeyError(k)\<close>
  when it has none, \<open>TypeError\<close> on every other value.\<close>

fun py_getitem :: "json \<Rightarrow> pystr \<Rightarrow> json raises" where
  "py_getitem (JObj kvs) k =
     (case map_of kvs k of None \<Rightarrow> Inl (KeyError (JStr k)) | Some v \<Rightarrow> Inr v)"
| "py_getitem v k = Inl (TypeError OpGetItem v)"

text \<open>\<open>x[0]\<close>: the first element of a list or the first character of a string,
  \<open>IndexError\<close> when it is empty; \<open>KeyError(0)\<close> on a dictionary, whose keys are strings;
  \<open>TypeError\<close> on every other value.\<close>

fun py_first :: "json \<Rightarrow> json raises" where
  "py_first (JArr []) = Inl (IndexError (lit ''list index out of range''))"
| "py_first (JArr (x # xs)) = Inr x"
| "py_first (JStr []) = Inl (IndexError (lit ''string index out of range''))"
| "py_first (JStr (c # cs)) = Inr (JStr [c])"
| "py_first (JObj kvs) = Inl (KeyError (JInt 0))"
| "py_first v = Inl (TypeError OpGetItem v)"

text \<open>\<open>x.get(k, default)\<close>: only a dictionary has the method.\<close>

fun py_get :: "json \<Rightarrow> pystr \<Rightarrow> json \<Rightarrow> json raises" where
  "py_get (JObj kvs) k d = Inr (case map_of kvs k of None \<Rightarrow> d | Some v \<Rightarrow> v)"
| "py_get v k d = Inl (AttributeError v)"

fun is_list :: "json \<Rightarrow> bool" where
  "is_list (JArr xs) = True"
| "is_list v = False"

text \<open>The chain of response formats in \<open>ask\<close>.\<close>

definition extract_answer :: "python \<Rightarrow> json \<Rightarrow> json raises" where
  "extract_answer P data =
     and_then (py_in (lit ''choices'') data) (\<lambda>has_choices.
       if has_choices then
         and_then (py_getitem data (lit ''choices'')) (\<lambda>choices.
         and_then (py_first choices) (\<lambda>choice.
         and_then (py_getitem choice (lit ''message'')) (\<lambda>message.
         py_getitem message (lit ''content''))))
       else and_then (py_in (lit ''content'') data) (\<lambda>has_content.
       if has_content then
         and_then (py_getitem data (lit ''content'')) (\<lambda>content.
           if is_list content then
             and_then (py_first content) (\<lambda>part.
               py_get part (lit ''text'') (JStr (py_str P data)))
           else Inr content)
       else and_then (py_in (lit ''response'') data) (\<lambda>has_response.
       if has_response then py_getitem data (lit ''response'')
       else and_then (py_in (lit ''message'') data) (\<lambda>has_message.
       if has_message then
         and_then (py_getitem data (lit ''message'')) (\<lambda>message.
           py_get message (lit ''content'') (JStr (py_str P data)))
       else Inr (JStr (py_str P data))))))"

definition build_prompt :: "pystr \<Rightarrow> pystr \<Rightarrow> pystr" where
  "build_prompt context question =
     lit ''Context (from gravitational memory):'' @ [10] @ context @ [10, 10]
     @ lit ''Question: '' @ question @ [10, 10]
     @ lit ''Answer based on the context above:''"

record http_request =
  req_url :: pystr
  req_headers :: "(pystr \<times> pystr) list"
  req_json :: json
  req_timeout :: int

definition ask_prompt :: "python \<Rightarrow> LLMRAGBooster \<Rightarrow> pystr \<Rightarrow> bool \<Rightarrow> int \<Rightarrow> pystr" where
  "ask_prompt P booster question use_memory top_k =
     (if use_memory
      then build_prompt (retrieve_relevant_context P (memory booster) question top_k) question
      else question)"

definition ask_request :: "LLMRAGBooster \<Rightarrow> pystr \<Rightarrow> http_request" where
  "ask_request booster prompt =
     \<lparr>req_url = api_url booster,
      req_headers =
        (lit ''Content-Type'', lit ''application/json'')
        # (if api_key booster \<noteq> []
           then [(lit ''Authorization'', lit ''Bearer '' @ api_key booster)]
           else []),
      req_json = JObj
        [(lit ''model'', JStr (model booster)),
         (lit ''messages'',
          JArr [JObj [(lit ''role'', JStr (lit ''user'')), (lit ''content'', JStr prompt)]]),
         (lit ''temperature'', JFloat (3 / 10)),
         (lit ''max_tokens'', JInt 500)],
      req_timeout = 30\<rparr>"

text \<open>\<open>ask\<close>. The parameter \<open>post\<close> is the completion boundary, \<open>requests.post\<close> followed by
  \<open>response.json()\<close>: it returns the parsed response or raises. Everything after the
  prompt is inside the \<open>try\<close>. The result is whatever Python value the chain returns.\<close>

definition ask :: "python \<Rightarrow> (http_request \<Rightarrow> json raises) \<Rightarrow> LLMRAGBooster \<Rightarrow> pystr \<Rightarrow> bool \<Rightarrow> int \<Rightarrow> json" where
  "ask P post booster question use_memory top_k =
     (case and_then (post (ask_request booster (ask_prompt P booster question use_memory top_k)))
             (extract_answer P) of
        Inl e \<Rightarrow> JStr (lit ''ERROR calling LLM: '' @ exc_str P e)
      | Inr answer \<Rightarrow> answer)"

record BoosterStats =
  stat_chunks :: int
  stat_bits :: int
  stat_indexed_keywords :: int
  stat_compression_level :: int
  states_per_bit :: int
  stat_integrity :: pystr

definition get_stats :: "LLMRAGBooster \<Rightarrow> BoosterStats" where
  "get_stats booster =
     \<lparr>stat_chunks = total_chunks (stats (memory booster)),
      stat_bits = total_bits (stats (memory booster)),
      stat_indexed_keywords = indexed_keywords (stats (memory booster)),
      stat_compression_level = booster_level booster,
      states_per_bit =
        booster_level booster * (booster_level booster + 1) * (2 * booster_level booster + 1) div 6,
      stat_integrity = lit ''100%''\<rparr>"

record InitResult =
  init_success :: bool
  init_model :: pystr
  compression_states :: int

text \<open>The module function \<open>init\<close>: the result it returns and the booster it stores in the
  global \<open>_booster\<close>.\<close>

definition init :: "pystr \<Rightarrow> pystr \<Rightarrow> pystr \<Rightarrow> InitResult \<times> LLMRAGBooster" where
  "init url key model_name =
     (\<lparr>init_success = True, init_model = model_name, compression_states = 1240\<rparr>,
      LLMRAGBooster_init url key model_name 15)"

section \<open>Notions used in the statements\<close>

text \<open>The tokenizer as the specification words it: lower-case the text, split it on
  whitespace, strip the punctuation from both ends of every token, and drop the tokens
  of at most 3 characters after stripping.\<close>

definition spec_tokens :: "python \<Rightarrow> pystr \<Rightarrow> pystr list" where
  "spec_tokens P text =
     filter (\<lambda>w. 3 < length w) (map (py_strip punctuation) (py_split (py_lower P text)))"

text \<open>Lower-casing keeps the words of a text: it changes neither where the text splits
  nor the length of any word. Every ASCII text has the property.\<close>

definition lower_keeps_words :: "python \<Rightarrow> pystr \<Rightarrow> bool" where
  "lower_keeps_words P text \<longleftrightarrow>
     py_split (py_lower P text) = map (py_lower P) (py_split text) \<and>
     list_all (\<lambda>w. length (py_lower P w) = length w) (py_split text)"

text \<open>The chunk ids the scoring loop visits: the index list of every query word, query
  word after query word.\<close>

definition index_hits :: "(pystr \<times> pystr list) list \<Rightarrow> pystr list \<Rightarrow> pystr list" where
  "index_hits idx words =
     concat (map (\<lambda>w. case map_of idx w of None \<Rightarrow> [] | Some ids \<Rightarrow> ids) words)"


text \<open>
  A library for the examples; only its \<open>unicode_lower\<close> matters in them, and only on the
  capital I with a dot above, U+0130, which it lower-cases to the two code points U+0069
  U+0307, as \<open>str.lower\<close> does.
\<close>

definition demo_python :: python where
  "demo_python =
     \<lparr>md5 = (\<lambda>t. 0),
      unicode_lower = (\<lambda>s. concat (map (\<lambda>c. if c = 0x130 then [0x69, 0x307] else [c]) s)),
      py_repr = (\<lambda>v. lit ''repr''),
      type_error_text = (\<lambda>op v. lit ''type error''),
      attribute_error_text = (\<lambda>v. lit ''attribute error'')\<rparr>"

text \<open>A memory of level 1 holding the chunk \<open>a\<close> with text \<open>lazy\<close> and then the chunk \<open>b\<close>
  with text \<open>quick\<close>.\<close>

definition demo_memory :: GravitationalMemory where
  "demo_memory =
     store_chunks demo_python
       [(\<lambda>i. 0, lit ''a'', lit ''lazy''), (\<lambda>i. 0, lit ''b'', lit ''quick'')]
       (GravitationalMemory_init 1)"

text \<open>The booster \<open>init\<close> creates.\<close>

definition demo_booster :: LLMRAGBooster where
  "demo_booster = snd (init (lit ''url'') (lit ''key'') (lit ''m''))"


section \<open>Properties of the gravitational bit\<close>

subsection \<open>The number of slots\<close>

lemma length_shell_sum:
  "length (states_of_shell n) = sum_list (map (\<lambda>l. nat (2 * l + 1)) [0..n - 1])"
  by (simp add: states_of_shell_def length_concat comp_def)

lemma sum_odd_upto: "0 \<le> k \<Longrightarrow> int (sum_list (map (\<lambda>l. nat (2 * l + 1)) [0..k - 1])) = k * k"
proof (induction k rule: int_ge_induct)
  case base
  show ?case by simp
next
  case (step i)
  have "[0..i + 1 - 1] = [0..i - 1] @ [i]"
    using step.hyps upto_rec2 [of 0 i] by simp
  with step show ?case by (simp add: algebra_simps)
qed

lemma length_states_of_shell: "0 \<le> n \<Longrightarrow> int (length (states_of_shell n)) = n * n"
  by (simp add: length_shell_sum sum_odd_upto)

lemma length_generate_sum:
  "int (length (generate_states L)) = sum_list (map (\<lambda>n. n * n) [1..L])"
proof -
  have "int (length (generate_states L)) = sum_list (map (\<lambda>n. int (length (states_of_shell n))) [1..L])"
    by (simp add: generate_states_def length_concat comp_def flip: sum_list_of_nat)
  also have "\<dots> = sum_list (map (\<lambda>n. n * n) [1..L])"
    by (rule arg_cong [where f = sum_list], rule map_cong) (auto simp: length_states_of_shell)
  finally show ?thesis .
qed

lemma sum_squares_upto: "0 \<le> L \<Longrightarrow> 6 * sum_list (map (\<lambda>n. n * n) [1..L]) = L * (L + 1) * (2 * L + 1)"
proof (induction L rule: int_ge_induct)
  case base
  show ?case by simp
next
  case (step i)
  have "[1..i + 1] = [1..i] @ [i + 1]"
    using step.hyps upto_rec2 [of 1 "i + 1"] by simp
  with step show ?case by (simp add: algebra_simps)
qed

lemma slot_count: "0 \<le> L \<Longrightarrow> int (length (generate_states L)) = L * (L + 1) * (2 * L + 1) div 6"
  using sum_squares_upto [of L] by (simp add: length_generate_sum)

subsection \<open>Encoding, decoding and propagation\<close>

lemma decode_step_pair:
  "decode_step v (i, s) = (if occupied s then v OR push_bit i 1 else v)"
  by (simp add: decode_step_def)

lemma bit_foldl_decode_step:
  "bit (foldl decode_step acc (enumerate k sts)) j \<longleftrightarrow>
     bit acc j \<or> (k \<le> j \<and> j < k + length sts \<and> occupied (sts ! (j - k)))"
proof (induction sts arbitrary: acc k)
  case Nil
  show ?case by auto
next
  case (Cons s sts)
  have "bit (foldl decode_step acc (enumerate k (s # sts))) j \<longleftrightarrow>
        bit (decode_step acc (k, s)) j \<or>
          (Suc k \<le> j \<and> j < Suc k + length sts \<and> occupied (sts ! (j - Suc k)))"
    by (simp add: Cons.IH)
  also have "\<dots> \<longleftrightarrow> bit acc j \<or> (k \<le> j \<and> j < k + length (s # sts) \<and> occupied ((s # sts) ! (j - k)))"
  proof (cases "j = k")
    case True
    then show ?thesis
      by (simp add: decode_step_pair bit_or_iff bit_exp_iff)
  next
    case False
    then show ?thesis
      by (auto simp: decode_step_pair bit_or_iff bit_exp_iff nth_Cons' Suc_le_eq)
  qed
  finally show ?case .
qed

lemma bit_decode_value:
  "bit (decode_value sts) j \<longleftrightarrow> j < length sts \<and> occupied (sts ! j)"
  by (simp add: decode_value_def bit_foldl_decode_step)

lemma occupied_encode_state: "occupied (encode_state rnd v i s) = bit v i"
  by (simp add: encode_state_def Let_def bit_iff_odd_drop_bit and_one_eq mod_2_eq_odd)

lemma states_encode_nth:
  "i < length (states b) \<Longrightarrow> states (encode rnd v b) ! i = encode_state rnd v i (states b ! i)"
  by (simp add: encode_def nth_enumerate_eq)

lemma length_states_encode: "length (states (encode rnd v b)) = length (states b)"
  by (simp add: encode_def)

lemma decode_value_encode:
  "decode_value (states (encode rnd v b)) = take_bit (length (states b)) v"
  by (rule bit_eqI)
    (auto simp: bit_decode_value bit_take_bit_iff length_states_encode states_encode_nth
      occupied_encode_state)

lemma occupied_propagate_state: "occupied (propagate_state dt f s) = occupied s"
  by (simp add: propagate_state_def)

lemma decode_value_propagate: "decode_value (states (propagate dt b)) = decode_value (states b)"
  by (rule bit_eqI) (auto simp: bit_decode_value propagate_def occupied_propagate_state)

lemma decode_value_propagate_all:
  "decode_value (states (propagate_all dts b)) = decode_value (states b)"
  unfolding propagate_all_def
  by (induction dts arbitrary: b) (simp_all add: decode_value_propagate)

lemma length_states_2: "length (states (GravitationalBit_init 2)) = 5"
  using slot_count [of 2] by (simp add: GravitationalBit_init_def)

text \<open>
  C1. For every non-negative integer \<open>v\<close> and every level \<open>L > 0\<close>, \<open>encode v\<close> on a fresh
  unit followed by \<open>decode\<close> returns \<open>v\<close> modulo two to the number of slots: only the low
  bits are read, and a value above the capacity is truncated. Neither function has a
  failing branch.
\<close>

theorem encode_then_decode_truncates:
  assumes "0 \<le> v" and "0 < L"
  shows "fst (decode (encode rnd v (GravitationalBit_init L))) =
         v mod 2 ^ length (states (GravitationalBit_init L))"
  by (simp add: decode_def decode_value_encode take_bit_eq_mod)

text \<open>At level 2 the unit has 5 slots, and 37 = 32 + 5 is read back as 5.\<close>

theorem encode_then_decode_truncates_witness:
  "(0::int) \<le> 37 \<and> (0::int) < 2 \<and>
   length (states (GravitationalBit_init 2)) = 5 \<and>
   fst (decode (encode (\<lambda>i. 0) 37 (GravitationalBit_init 2))) = 5"
proof -
  have "fst (decode (encode (\<lambda>i. 0) 37 (GravitationalBit_init 2))) =
        37 mod 2 ^ length (states (GravitationalBit_init 2))"
    by (rule encode_then_decode_truncates) simp_all
  then show ?thesis by (simp add: length_states_2)
qed

text \<open>
  C2. Whatever the slots of a unit hold, any number of \<open>propagate\<close> calls with any time
  steps leaves the decoded integer as it was; hence \<open>verify_integrity original\<close> is true
  after any sequence of \<open>propagate\<close> calls that follows \<open>encode original\<close>, when \<open>original\<close>
  is non-negative and below two to the number of slots.
\<close>

theorem propagate_preserves_decode:
  "fst (decode (propagate_all dts b)) = fst (decode b) \<and>
   (0 \<le> original \<and> original < 2 ^ length (states b0) \<longrightarrow>
    fst (verify_integrity original (propagate_all dts (encode rnd original b0))))"
  by (simp add: decode_def verify_integrity_def decode_value_propagate_all decode_value_encode
      take_bit_eq_mod)

theorem propagate_preserves_decode_witness:
  "fst (decode (propagate_all [1 / 100, 5] (encode (\<lambda>i. 1 / 2) 19 (GravitationalBit_init 2))))
     = 19 \<and>
   (0::int) \<le> 19 \<and> (19::int) < 2 ^ length (states (GravitationalBit_init 2)) \<and>
   fst (verify_integrity 19
     (propagate_all [1 / 100, 5] (encode (\<lambda>i. 1 / 2) 19 (GravitationalBit_init 2))))"
proof -
  have dec: "fst (decode (encode (\<lambda>i. 1 / 2) 19 (GravitationalBit_init 2))) = 19"
    by (simp add: decode_def decode_value_encode length_states_2 take_bit_eq_mod)
  show ?thesis
    using propagate_preserves_decode
      [of "[1 / 100, 5]" "encode (\<lambda>i. 1 / 2) 19 (GravitationalBit_init 2)" 19
          "GravitationalBit_init 2" "\<lambda>i. 1 / 2"]
    by (simp add: length_states_2 dec)
qed

text \<open>
  C8. For every level \<open>L > 0\<close> the constructor generates \<open>L (L + 1) (2 L + 1) / 6\<close> slots,
  the sum of the squares up to \<open>L\<close>. \<open>init\<close> builds its booster and the booster's memory at
  level 15, where that number is 1240, and returns the constant 1240 as
  \<open>compression_states\<close>; so the declared constant is the number of slots of the units the
  memory builds, and \<open>states_per_bit\<close> of the statistics, computed by the formula at the
  booster's level, is the same number, for the booster of \<open>init\<close> and for a booster of any
  level \<open>L > 0\<close>.
\<close>

theorem slot_count_sum_of_squares:
  assumes "0 < L"
  shows "int (length (states (GravitationalBit_init L))) = L * (L + 1) * (2 * L + 1) div 6 \<and>
         int (length (states (GravitationalBit_init 15))) = 1240 \<and>
         compression_states (fst (init url key name)) = 1240 \<and>
         booster_level (snd (init url key name)) = 15 \<and>
         compression_level (memory (snd (init url key name))) = 15 \<and>
         compression_states (fst (init url key name)) =
           int (length (states (GravitationalBit_init
             (compression_level (memory (snd (init url key name))))))) \<and>
         states_per_bit (get_stats (snd (init url key name))) = 1240 \<and>
         states_per_bit (get_stats (LLMRAGBooster_init url key name L)) =
           int (length (states (GravitationalBit_init
             (compression_level (memory (LLMRAGBooster_init url key name L))))))"
  using assms slot_count [of L] slot_count [of 15]
  by (simp add: GravitationalBit_init_def init_def get_stats_def LLMRAGBooster_init_def
      GravitationalMemory_init_def)

text \<open>At level 3 there are 1 + 4 + 9 = 14 slots, and the statistics of a booster of
  level 3 say 14.\<close>

theorem slot_count_sum_of_squares_witness:
  "(0::int) < 3 \<and> int (length (states (GravitationalBit_init 3))) = 14 \<and>
   states_per_bit (get_stats (LLMRAGBooster_init (lit ''url'') (lit ''key'') (lit ''m'') 3)) = 14"
  using slot_count_sum_of_squares [of 3 "lit ''url''" "lit ''key''" "lit ''m''"]
  by (simp add: LLMRAGBooster_init_def GravitationalMemory_init_def)


section \<open>Properties of the tokenizers\<close>

lemma lit_eq_iff [simp]: "lit a = lit b \<longleftrightarrow> a = b"
  by (simp add: lit_def inj_of_char)

lemma length_lit [simp]: "length (lit s) = length s"
  by (simp add: lit_def)

lemma is_space_lower_char: "is_space (lower_char c) = is_space c"
  by (auto simp: is_space_def lower_char_def)

lemma split_run_lower:
  "split_run (map lower_char cur) (map lower_char s) = map (map lower_char) (split_run cur s)"
  by (induction cur s rule: split_run.induct) (simp_all add: is_space_lower_char)

lemma split_run_ascii:
  "is_ascii cur \<Longrightarrow> is_ascii s \<Longrightarrow> list_all is_ascii (split_run cur s)"
  by (induction cur s rule: split_run.induct) (simp_all add: is_ascii_def)

lemma py_lower_ascii: "is_ascii s \<Longrightarrow> py_lower P s = map lower_char s"
  by (simp add: py_lower_def)

lemma ascii_lower_keeps_words:
  assumes "is_ascii q"
  shows "lower_keeps_words P q"
proof -
  have words: "list_all is_ascii (py_split q)"
    using assms split_run_ascii [of "[]" q] by (simp add: py_split_def is_ascii_def)
  have "py_split (py_lower P q) = map (map lower_char) (py_split q)"
    using split_run_lower [of "[]" q] by (simp add: py_split_def py_lower_ascii assms)
  also have "\<dots> = map (py_lower P) (py_split q)"
    using words by (auto simp: list_all_iff py_lower_ascii)
  finally have split: "py_split (py_lower P q) = map (py_lower P) (py_split q)" .
  have "list_all (\<lambda>w. length (py_lower P w) = length w) (py_split q)"
    using words by (auto simp: list_all_iff py_lower_ascii)
  with split show ?thesis by (simp add: lower_keeps_words_def)
qed

lemma length_py_strip: "length (py_strip chars w) \<le> length w"
proof -
  have "length (py_strip chars w) \<le> length (dropWhile (\<lambda>c. c \<in> set chars) w)"
    unfolding py_strip_def length_rev
    by (metis length_dropWhile_le length_rev)
  also have "\<dots> \<le> length w"
    by (rule length_dropWhile_le)
  finally show ?thesis .
qed

lemma filter_map_filter:
  assumes "\<And>x. x \<in> set xs \<Longrightarrow> P (f x) \<Longrightarrow> Q x"
  shows "filter P (map f (filter Q xs)) = filter P (map f xs)"
  using assms by (induction xs) auto

lemma long_query_words:
  assumes "lower_keeps_words P q"
  shows "filter (\<lambda>w. 3 < length w) (query_words P q) = spec_tokens P q"
proof -
  from assms have split: "py_split (py_lower P q) = map (py_lower P) (py_split q)"
    and len: "\<And>w. w \<in> set (py_split q) \<Longrightarrow> length (py_lower P w) = length w"
    by (simp_all add: lower_keeps_words_def list_all_iff)
  have "3 < length w"
    if "w \<in> set (py_split q)" and "3 < length (py_strip punctuation (py_lower P w))" for w
    using that len [of w] length_py_strip [of punctuation "py_lower P w"] by simp
  then have "filter (\<lambda>w. 3 < length w)
               (map (\<lambda>w. py_strip punctuation (py_lower P w))
                  (filter (\<lambda>w. 3 < length w) (py_split q)))
             = filter (\<lambda>w. 3 < length w)
                 (map (\<lambda>w. py_strip punctuation (py_lower P w)) (py_split q))"
    by (rule filter_map_filter)
  then show ?thesis
    by (simp add: query_words_def spec_tokens_def split comp_def)
qed

lemma index_words_fold:
  "index_words idx chunk_id words =
     foldl (\<lambda>i w. index_append i w chunk_id) idx
       (filter (\<lambda>w. 3 < length w) (map (py_strip punctuation) words))"
  by (induction words arbitrary: idx) (simp_all add: Let_def)

section \<open>Properties of the ranking\<close>

lemma map_fst_dict_set:
  "map fst (dict_set d k v) = (if k \<in> set (map fst d) then map fst d else map fst d @ [k])"
proof (induction d)
  case Nil
  show ?case by simp
next
  case (Cons p d)
  then show ?case by (cases p) force
qed

lemma map_of_dict_set: "map_of (dict_set d k v) = (map_of d)(k \<mapsto> v)"
  by (induction d) (auto simp: fun_eq_iff)

lemma score_chunks_hits: "foldl (score_word idx) sc words = foldl score_hit sc (index_hits idx words)"
  by (induction words arbitrary: sc) (simp_all add: index_hits_def score_word_def split: option.splits)

lemma keys_score_hit:
  "map fst (score_hit sc k) = (if k \<in> set (map fst sc) then map fst sc else map fst sc @ [k])"
  by (simp add: score_hit_def map_fst_dict_set)

lemma scores_get_score_hit:
  "scores_get (score_hit sc k) k' = (if k' = k then scores_get sc k + 1 else scores_get sc k')"
  by (simp add: score_hit_def scores_get_def map_of_dict_set)

lemma keys_score_hits: "map fst (foldl score_hit [] hs) = rev (remdups (rev hs))"
proof (induction hs rule: rev_induct)
  case Nil
  show ?case by simp
next
  case (snoc h hs)
  then show ?case by (simp add: keys_score_hit)
qed

lemma scores_get_hits: "scores_get (foldl score_hit [] hs) k = int (count_list hs k)"
proof (induction hs arbitrary: k rule: rev_induct)
  case Nil
  show ?case by (simp add: scores_get_def)
next
  case (snoc h hs)
  then show ?case by (simp add: scores_get_score_hit)
qed

lemma sorted_by_score_descending:
  "sorted_wrt (\<lambda>a b. scores_get sc b \<le> scores_get sc a) (sorted_by_score sc)"
proof -
  have "sorted (map (\<lambda>k. - scores_get sc k) (sorted_by_score sc))"
    by (simp add: sorted_by_score_def)
  then show ?thesis
    by (simp add: sorted_map)
qed

lemma sorted_by_score_stable:
  "filter (\<lambda>k. scores_get sc k = c) (sorted_by_score sc) =
   filter (\<lambda>k. scores_get sc k = c) (map fst sc)"
proof -
  have "(\<lambda>k. scores_get sc k = c) = (\<lambda>k. - scores_get sc k = - c)" by auto
  then show ?thesis
    unfolding sorted_by_score_def by (simp only: sort_key_stable)
qed

lemma index_demo_memory:
  "index demo_memory = [(lit ''lazy'', [lit ''a'']), (lit ''quick'', [lit ''b''])]"
  by (simp add: demo_memory_def store_chunks_def store_chunk_def GravitationalMemory_init_def
      Let_def split_def py_split_def is_space_def py_lower_def is_ascii_def lower_char_def
      py_strip_def punctuation_def index_append_def lit_def)

lemma storage_demo_memory:
  "map (\<lambda>p. (fst p, frag_text (snd p))) (storage demo_memory) =
     [(lit ''a'', lit ''lazy''), (lit ''b'', lit ''quick'')]"
  by (simp add: demo_memory_def store_chunks_def store_chunk_def GravitationalMemory_init_def
      Let_def split_def)

lemma query_words_quick_lazy:
  "query_words demo_python (lit ''quick lazy'') = [lit ''quick'', lit ''lazy'']"
  by (simp add: query_words_def py_split_def is_space_def py_lower_def is_ascii_def
      lower_char_def py_strip_def punctuation_def lit_def)

lemma scores_demo:
  "score_chunks (index demo_memory) (query_words demo_python (lit ''quick lazy'')) =
     [(lit ''b'', 1), (lit ''a'', 1)]"
  by (simp add: index_demo_memory query_words_quick_lazy score_chunks_def score_word_def
      score_hit_def)

lemma top_chunks_demo:
  "top_chunks demo_python demo_memory (lit ''quick lazy'') 8 = [lit ''b'', lit ''a'']"
  by (simp add: top_chunks_def scores_demo sorted_by_score_def scores_get_def py_take_def)

text \<open>
  C4. The claim: fragments of equal score come out in the order they were stored, for
  every query. For a query of two tokens they do not: \<open>a\<close> was stored before \<open>b\<close>, both
  score 1 on the query \<open>quick lazy\<close>, and \<open>b\<close> is ranked first, because the first
  query token reaches it first.
\<close>

theorem tie_order_counterexample:
  "map fst (storage demo_memory) = [lit ''a'', lit ''b''] \<and>
   score_chunks (index demo_memory) (query_words demo_python (lit ''quick lazy'')) =
     [(lit ''b'', 1), (lit ''a'', 1)] \<and>
   top_chunks demo_python demo_memory (lit ''quick lazy'') 8 = [lit ''b'', lit ''a''] \<and>
   retrieve_relevant_context demo_python demo_memory (lit ''quick lazy'') 8 =
     lit ''quick'' @ [10, 10] @ lit ''lazy''"
proof -
  have keys: "map fst (storage demo_memory) = [lit ''a'', lit ''b'']"
    using storage_demo_memory [THEN arg_cong, of "map fst"] by (simp add: comp_def)
  have a: "map_option frag_text (map_of (storage demo_memory) (lit ''a'')) = Some (lit ''lazy'')"
    and b: "map_option frag_text (map_of (storage demo_memory) (lit ''b'')) = Some (lit ''quick'')"
    by (simp_all add: demo_memory_def store_chunks_def store_chunk_def GravitationalMemory_init_def
      Let_def split_def)
  have "retrieve_relevant_context demo_python demo_memory (lit ''quick lazy'') 8 =
     lit ''quick'' @ [10, 10] @ lit ''lazy''"
    using a b by (auto simp: retrieve_relevant_context_def top_chunks_demo)
  with keys show ?thesis
    by (simp add: scores_demo top_chunks_demo)
qed

text \<open>
  C4 as the code has it: the ranking is by descending score; fragments of equal score
  keep the order in which the scoring loop first reached them, that is the order of
  their first occurrence in the index lists of the query tokens, taken query token by
  query token; the score of a fragment is the number of its occurrences there; and when
  some token matches, the result is the first \<open>top_k\<close> of this ranking.
\<close>

theorem ranking_by_score_then_first_hit:
  "sorted_wrt (\<lambda>a b. scores_get (score_chunks (index mem) (query_words P q)) b
                       \<le> scores_get (score_chunks (index mem) (query_words P q)) a)
     (sorted_by_score (score_chunks (index mem) (query_words P q))) \<and>
   filter (\<lambda>k. scores_get (score_chunks (index mem) (query_words P q)) k = c)
     (sorted_by_score (score_chunks (index mem) (query_words P q))) =
   filter (\<lambda>k. scores_get (score_chunks (index mem) (query_words P q)) k = c)
     (rev (remdups (rev (index_hits (index mem) (query_words P q))))) \<and>
   scores_get (score_chunks (index mem) (query_words P q)) k =
     int (count_list (index_hits (index mem) (query_words P q)) k) \<and>
   (score_chunks (index mem) (query_words P q) \<noteq> [] \<longrightarrow>
    top_chunks P mem q top_k =
      py_take top_k (sorted_by_score (score_chunks (index mem) (query_words P q))))"
proof -
  have sc: "score_chunks (index mem) (query_words P q) =
            foldl score_hit [] (index_hits (index mem) (query_words P q))"
    by (simp add: score_chunks_def score_chunks_hits)
  have keys: "map fst (score_chunks (index mem) (query_words P q)) =
              rev (remdups (rev (index_hits (index mem) (query_words P q))))"
    by (simp add: sc keys_score_hits)
  show ?thesis
    by (simp add: sorted_by_score_descending sorted_by_score_stable keys [symmetric]
        top_chunks_def Let_def)
      (simp add: sc scores_get_hits)
qed

theorem ranking_by_score_then_first_hit_witness:
  "score_chunks (index demo_memory) (query_words demo_python (lit ''quick lazy'')) \<noteq> [] \<and>
   top_chunks demo_python demo_memory (lit ''quick lazy'') 1 = [lit ''b'']"
  using ranking_by_score_then_first_hit
    [of demo_memory demo_python "lit ''quick lazy''" 1 "lit ''b''" 1]
  by (simp add: scores_demo sorted_by_score_def scores_get_def py_take_def)

section \<open>The constructor at a non-positive level\<close>

lemma generate_states_nonpositive: "L \<le> 0 \<Longrightarrow> generate_states L = []"
  by (simp add: generate_states_def)

text \<open>
  C5. The claim: the constructor rejects a level \<open>L \<le> 0\<close> with an InvalidConfiguration
  error. The constructor has no check and no failing branch: at level 0 it returns a unit
  without slots, and a memory of level 0 stores a chunk in such a unit and reports 0
  states.
\<close>

theorem level_zero_not_rejected_counterexample:
  "GravitationalBit_init 0 = \<lparr>n_max = 0, nucleus_field = 1, states = [], operation_count = 0\<rparr> \<and>
   res_states (fst (store_chunk demo_python (\<lambda>i. 0) (lit ''a'') (lit ''text'') (GravitationalMemory_init 0))) = 0"
  by (simp add: GravitationalBit_init_def generate_states_def store_chunk_def
      GravitationalMemory_init_def Let_def split_def encode_def decode_def propagate_def
      verify_integrity_def)

text \<open>
  C5 as the code has it: for every level \<open>L \<le> 0\<close> the constructor returns a unit with
  \<open>n_max = L\<close>, no slots and operation count 0; on it every value encodes to nothing and
  decodes to 0.
\<close>

theorem nonpositive_level_gives_empty_unit:
  assumes "L \<le> 0"
  shows "GravitationalBit_init L =
           \<lparr>n_max = L, nucleus_field = 1, states = [], operation_count = 0\<rparr> \<and>
         fst (decode (encode rnd v (GravitationalBit_init L))) = 0"
  using assms
  by (simp add: GravitationalBit_init_def generate_states_nonpositive decode_def encode_def
      decode_value_def)

theorem nonpositive_level_gives_empty_unit_witness:
  "(- 3 :: int) \<le> 0 \<and> states (GravitationalBit_init (- 3)) = [] \<and>
   fst (decode (encode (\<lambda>i. 0) 6 (GravitationalBit_init (- 3)))) = 0"
proof -
  have le: "(- 3 :: int) \<le> 0" by simp
  note unit = nonpositive_level_gives_empty_unit [OF le, of "\<lambda>i. 0" 6]
  from unit have "states (GravitationalBit_init (- 3)) = []" by simp
  moreover from unit have "fst (decode (encode (\<lambda>i. 0) 6 (GravitationalBit_init (- 3)))) = 0"
    by (rule conjunct2)
  ultimately show ?thesis by simp
qed

section \<open>Properties of the store\<close>

lemma distinct_dict_set: "distinct (map fst d) \<Longrightarrow> distinct (map fst (dict_set d k v))"
  by (simp add: map_fst_dict_set)

lemma set_keys_dict_set: "set (map fst (dict_set d k v)) = insert k (set (map fst d))"
  by (auto simp: map_fst_dict_set)

lemma stats_store_chunk:
  "total_chunks (stats (snd (store_chunk P rnd chunk_id text mem))) = total_chunks (stats mem) + 1"
  "total_bits (stats (snd (store_chunk P rnd chunk_id text mem))) = total_bits (stats mem) + 1"
  by (simp_all add: store_chunk_def Let_def split_def)


lemma index_store_chunk:
  "index (snd (store_chunk P rnd chunk_id text mem)) =
     index_words (index mem) chunk_id (py_split (py_lower P text))"
  by (simp add: store_chunk_def Let_def split_def)

lemma keys_store_chunk:
  "map fst (storage (snd (store_chunk P rnd chunk_id text mem))) =
     (if chunk_id \<in> set (map fst (storage mem)) then map fst (storage mem)
      else map fst (storage mem) @ [chunk_id])"
  by (simp add: store_chunk_def Let_def split_def map_fst_dict_set)

lemma text_store_chunk:
  "map_option frag_text (map_of (storage (snd (store_chunk P rnd chunk_id text mem))) k) =
     (if k = chunk_id then Some text else map_option frag_text (map_of (storage mem) k))"
  by (simp add: store_chunk_def Let_def split_def map_of_dict_set)

lemma store_chunks_Nil: "store_chunks P [] mem = mem"
  by (simp add: store_chunks_def)

lemma store_chunks_snoc:
  "store_chunks P (calls @ [(rnd, chunk_id, text)]) mem =
     snd (store_chunk P rnd chunk_id text (store_chunks P calls mem))"
  by (simp add: store_chunks_def)

lemma total_chunks_store_chunks:
  "total_chunks (stats (store_chunks P calls mem)) = total_chunks (stats mem) + int (length calls)"
proof (induction calls rule: rev_induct)
  case Nil
  show ?case by (simp add: store_chunks_Nil)
next
  case (snoc c calls)
  then show ?case by (cases c) (simp add: store_chunks_snoc stats_store_chunk)
qed

lemma total_bits_store_chunks:
  "total_bits (stats (store_chunks P calls mem)) = total_bits (stats mem) + int (length calls)"
proof (induction calls rule: rev_induct)
  case Nil
  show ?case by (simp add: store_chunks_Nil)
next
  case (snoc c calls)
  then show ?case by (cases c) (simp add: store_chunks_snoc stats_store_chunk)
qed

lemma distinct_keys_store_chunks:
  "distinct (map fst (storage mem)) \<Longrightarrow> distinct (map fst (storage (store_chunks P calls mem)))"
proof (induction calls rule: rev_induct)
  case Nil
  then show ?case by (simp add: store_chunks_Nil)
next
  case (snoc c calls)
  then show ?case by (cases c) (simp add: store_chunks_snoc keys_store_chunk)
qed

lemma set_keys_store_chunks:
  "set (map fst (storage (store_chunks P calls mem))) =
     set (map fst (storage mem)) \<union> set (map (\<lambda>c. fst (snd c)) calls)"
proof (induction calls rule: rev_induct)
  case Nil
  show ?case by (simp add: store_chunks_Nil)
next
  case (snoc c calls)
  then show ?case by (cases c) (auto simp: store_chunks_snoc keys_store_chunk)
qed

lemma text_store_chunks:
  "map_option frag_text (map_of (storage (store_chunks P calls mem)) k) =
     (case map_of (rev (map snd calls)) k of
        None \<Rightarrow> map_option frag_text (map_of (storage mem) k)
      | Some text \<Rightarrow> Some text)"
proof (induction calls rule: rev_induct)
  case Nil
  show ?case by (simp add: store_chunks_Nil)
next
  case (snoc c calls)
  then show ?case by (cases c) (simp add: store_chunks_snoc text_store_chunk)
qed

text \<open>
  C9. After any sequence of \<open>store_chunk\<close> calls on a fresh memory, \<open>total_chunks\<close> and
  \<open>total_bits\<close> are the number of calls, while the storage holds one fragment per distinct
  chunk id, the one of the last call with that id. So a call with an id already present
  overwrites the fragment and still counts, and when an id repeats the reported number
  of chunks exceeds the number of fragments held.
\<close>

theorem counters_count_calls:
  "total_chunks (stats (store_chunks P calls (GravitationalMemory_init L))) = int (length calls) \<and>
   total_bits (stats (store_chunks P calls (GravitationalMemory_init L))) = int (length calls) \<and>
   distinct (map fst (storage (store_chunks P calls (GravitationalMemory_init L)))) \<and>
   set (map fst (storage (store_chunks P calls (GravitationalMemory_init L)))) =
     set (map (\<lambda>c. fst (snd c)) calls) \<and>
   map_option frag_text (map_of (storage (store_chunks P calls (GravitationalMemory_init L))) k) =
     map_of (rev (map snd calls)) k \<and>
   (\<not> distinct (map (\<lambda>c. fst (snd c)) calls) \<longrightarrow>
    int (length (storage (store_chunks P calls (GravitationalMemory_init L)))) <
      total_chunks (stats (store_chunks P calls (GravitationalMemory_init L))))"
proof -
  let ?m = "store_chunks P calls (GravitationalMemory_init L)"
  have init: "storage (GravitationalMemory_init L) = []"
    "total_chunks (stats (GravitationalMemory_init L)) = 0"
    "total_bits (stats (GravitationalMemory_init L)) = 0"
    by (simp_all add: GravitationalMemory_init_def)
  have chunks: "total_chunks (stats ?m) = int (length calls)"
    and bits: "total_bits (stats ?m) = int (length calls)"
    by (simp_all add: total_chunks_store_chunks total_bits_store_chunks init)
  have dist: "distinct (map fst (storage ?m))"
    by (rule distinct_keys_store_chunks) (simp add: init)
  have keys: "set (map fst (storage ?m)) = set (map (\<lambda>c. fst (snd c)) calls)"
    using set_keys_store_chunks [of P calls "GravitationalMemory_init L"] by (simp add: init)
  have texts: "map_option frag_text (map_of (storage ?m) k) = map_of (rev (map snd calls)) k"
    by (simp add: text_store_chunks init split: option.splits)
  have "length (storage ?m) = card (set (map (\<lambda>c. fst (snd c)) calls))"
    using distinct_card [OF dist] keys by simp
  moreover have "card (set (map (\<lambda>c. fst (snd c)) calls)) < length calls"
    if "\<not> distinct (map (\<lambda>c. fst (snd c)) calls)"
    using that card_distinct [of "map (\<lambda>c. fst (snd c)) calls"]
      card_length [of "map (\<lambda>c. fst (snd c)) calls"] by fastforce
  ultimately have excess: "\<not> distinct (map (\<lambda>c. fst (snd c)) calls) \<longrightarrow>
      int (length (storage ?m)) < total_chunks (stats ?m)"
    by (simp add: chunks)
  from chunks bits dist keys texts excess show ?thesis by blast
qed

text \<open>Two calls with the id \<open>a\<close>: two chunks counted, one fragment held, with the text of
  the second call.\<close>

theorem counters_count_calls_witness:
  "\<not> distinct (map (\<lambda>c. fst (snd c))
      [(\<lambda>i. 0 :: real, lit ''a'', lit ''first''), (\<lambda>i. 0, lit ''a'', lit ''second'')]) \<and>
   total_chunks (stats (store_chunks demo_python
     [(\<lambda>i. 0, lit ''a'', lit ''first''), (\<lambda>i. 0, lit ''a'', lit ''second'')]
     (GravitationalMemory_init 1))) = 2 \<and>
   map fst (storage (store_chunks demo_python
     [(\<lambda>i. 0, lit ''a'', lit ''first''), (\<lambda>i. 0, lit ''a'', lit ''second'')]
     (GravitationalMemory_init 1))) = [lit ''a''] \<and>
   map_option frag_text (map_of (storage (store_chunks demo_python
     [(\<lambda>i. 0, lit ''a'', lit ''first''), (\<lambda>i. 0, lit ''a'', lit ''second'')]
     (GravitationalMemory_init 1))) (lit ''a'')) = Some (lit ''second'') \<and>
   int (length (storage (store_chunks demo_python
     [(\<lambda>i. 0, lit ''a'', lit ''first''), (\<lambda>i. 0, lit ''a'', lit ''second'')]
     (GravitationalMemory_init 1)))) <
   total_chunks (stats (store_chunks demo_python
     [(\<lambda>i. 0, lit ''a'', lit ''first''), (\<lambda>i. 0, lit ''a'', lit ''second'')]
     (GravitationalMemory_init 1)))"
proof -
  have keys: "map fst (storage (store_chunks demo_python
     [(\<lambda>i. 0, lit ''a'', lit ''first''), (\<lambda>i. 0, lit ''a'', lit ''second'')]
     (GravitationalMemory_init 1))) = [lit ''a'']"
    by (simp add: store_chunks_def keys_store_chunk GravitationalMemory_init_def)
  show ?thesis
    using counters_count_calls [of demo_python
      "[(\<lambda>i. 0, lit ''a'', lit ''first''), (\<lambda>i. 0, lit ''a'', lit ''second'')]" 1 "lit ''a''"]
    by (simp add: keys)
qed


section \<open>Properties of ask\<close>

lemma foldl_score_word_empty: "foldl (score_word []) sc ws = sc"
  by (induction ws) (simp_all add: score_word_def)

lemma retrieve_empty_memory:
  "retrieve_relevant_context P (GravitationalMemory_init L) q k = []"
  by (simp add: retrieve_relevant_context_def top_chunks_def GravitationalMemory_init_def
      score_chunks_def foldl_score_word_empty py_take_def Let_def)

text \<open>
  C6. The claim: the prompt starts with the line \<open>Context:\<close>. The first line the code
  writes is \<open>Context (from gravitational memory):\<close>.
\<close>

theorem prompt_prefix_counterexample:
  "ask_prompt demo_python demo_booster (lit ''why'') True 8 =
     lit ''Context (from gravitational memory):'' @ [10] @ [10, 10]
     @ lit ''Question: why'' @ [10, 10] @ lit ''Answer based on the context above:'' \<and>
   ask_prompt demo_python demo_booster (lit ''why'') True 8 \<noteq>
     lit ''Context:'' @ [10] @ [10, 10]
     @ lit ''Question: why'' @ [10, 10] @ lit ''Answer based on the context above:''"
  by (simp add: ask_prompt_def build_prompt_def demo_booster_def init_def LLMRAGBooster_init_def
      retrieve_empty_memory lit_def)

text \<open>
  C6 as the code has it: with \<open>use_memory\<close> set, as the module function \<open>ask\<close> sets it, the
  prompt is \<open>Context (from gravitational memory):\<close>, a newline, the retrieved context, a
  blank line, \<open>Question: \<close> and the question, a blank line, and \<open>Answer based on the
  context above:\<close>; it is the content of the one user message of the request the boundary
  receives.
\<close>

theorem prompt_format:
  "ask_prompt P booster question True top_k =
     lit ''Context (from gravitational memory):'' @ [10]
     @ retrieve_relevant_context P (memory booster) question top_k @ [10, 10]
     @ lit ''Question: '' @ question @ [10, 10]
     @ lit ''Answer based on the context above:'' \<and>
   ask P post booster question True top_k =
     (case and_then
        (post (ask_request booster
          (lit ''Context (from gravitational memory):'' @ [10]
           @ retrieve_relevant_context P (memory booster) question top_k @ [10, 10]
           @ lit ''Question: '' @ question @ [10, 10]
           @ lit ''Answer based on the context above:'')))
        (extract_answer P) of
        Inl e \<Rightarrow> JStr (lit ''ERROR calling LLM: '' @ exc_str P e)
      | Inr answer \<Rightarrow> answer) \<and>
   req_json (ask_request booster prompt) =
     JObj [(lit ''model'', JStr (model booster)),
           (lit ''messages'',
            JArr [JObj [(lit ''role'', JStr (lit ''user'')), (lit ''content'', JStr prompt)]]),
           (lit ''temperature'', JFloat (3 / 10)),
           (lit ''max_tokens'', JInt 500)]"
  by (simp add: ask_def ask_prompt_def build_prompt_def ask_request_def)

lemma and_then_Inl: "and_then (Inl e) f = Inl e"
  by (simp add: and_then_def)

lemma and_then_Inr: "and_then (Inr x) f = f x"
  by (simp add: and_then_def)

lemma ask_cases:
  "ask P post booster question use_memory top_k =
     (case post (ask_request booster (ask_prompt P booster question use_memory top_k)) of
        Inl e \<Rightarrow> JStr (lit ''ERROR calling LLM: '' @ exc_str P e)
      | Inr data \<Rightarrow>
          (case extract_answer P data of
             Inl e \<Rightarrow> JStr (lit ''ERROR calling LLM: '' @ exc_str P e)
           | Inr answer \<Rightarrow> answer))"
  by (simp add: ask_def and_then_def split: sum.splits)

lemma extract_choices:
  assumes "map_of kvs (lit ''choices'') = Some (JArr (JObj choice # rest))"
    and "map_of choice (lit ''message'') = Some (JObj message)"
    and "map_of message (lit ''content'') = Some x"
  shows "extract_answer P (JObj kvs) = Inr x"
  using assms by (simp add: extract_answer_def and_then_Inr)

lemma extract_response:
  assumes "map_of kvs (lit ''choices'') = None" and "map_of kvs (lit ''content'') = None"
    and "map_of kvs (lit ''response'') = Some y"
  shows "extract_answer P (JObj kvs) = Inr y"
  using assms by (simp add: extract_answer_def and_then_Inr)

lemma extract_unknown:
  assumes "map_of kvs (lit ''choices'') = None" and "map_of kvs (lit ''content'') = None"
    and "map_of kvs (lit ''response'') = None" and "map_of kvs (lit ''message'') = None"
  shows "extract_answer P (JObj kvs) = Inr (JStr (py_repr P (JObj kvs)))"
  using assms by (simp add: extract_answer_def and_then_Inr py_str_def)

lemma extract_empty_choices:
  assumes "map_of kvs (lit ''choices'') = Some (JArr [])"
  shows "extract_answer P (JObj kvs) = Inl (IndexError (lit ''list index out of range''))"
  using assms by (simp add: extract_answer_def and_then_Inr and_then_Inl)

text \<open>
  What \<open>ask\<close> returns on a dictionary, whatever other keys it holds: the \<open>content\<close> of the
  \<open>message\<close> of the first of the \<open>choices\<close>; without \<open>choices\<close> and \<open>content\<close>, the value of
  \<open>response\<close>; without any of the four keys, \<open>str(data)\<close>. An exception of the boundary
  gives the error string with the text of the exception.
\<close>

lemma ask_string_answers:
  assumes "post (ask_request booster (ask_prompt P booster question use_memory top_k)) =
             Inr (JObj kvs)"
  shows "map_of kvs (lit ''choices'') = Some (JArr (JObj choice # rest)) \<Longrightarrow>
         map_of choice (lit ''message'') = Some (JObj message) \<Longrightarrow>
         map_of message (lit ''content'') = Some x \<Longrightarrow>
         ask P post booster question use_memory top_k = x"
    and "map_of kvs (lit ''choices'') = None \<Longrightarrow> map_of kvs (lit ''content'') = None \<Longrightarrow>
         map_of kvs (lit ''response'') = Some y \<Longrightarrow>
         ask P post booster question use_memory top_k = y"
    and "map_of kvs (lit ''choices'') = None \<Longrightarrow> map_of kvs (lit ''content'') = None \<Longrightarrow>
         map_of kvs (lit ''response'') = None \<Longrightarrow> map_of kvs (lit ''message'') = None \<Longrightarrow>
         ask P post booster question use_memory top_k = JStr (py_repr P (JObj kvs))"
  using assms by (simp_all add: ask_cases extract_choices extract_response extract_unknown)

lemma ask_error_string:
  "post (ask_request booster (ask_prompt P booster question use_memory top_k)) = Inl e \<Longrightarrow>
   ask P post booster question use_memory top_k = JStr (lit ''ERROR calling LLM: '' @ exc_str P e)"
  by (simp add: ask_cases)

text \<open>
  C7. \<open>ask\<close> is declared to return a string, and its callers search and slice the
  result. It returns the extracted field as it is: when the boundary answers with a
  completion whose \<open>content\<close> is \<open>null\<close>, \<open>ask\<close> returns \<open>None\<close>, for every booster, question
  and library.
\<close>

theorem ask_returns_None_for_null_content:
  "ask P (\<lambda>request. Inr (JObj
       [(lit ''id'', JStr (lit ''cmpl-1'')),
        (lit ''choices'',
         JArr [JObj [(lit ''index'', JInt 0),
                     (lit ''message'',
                      JObj [(lit ''role'', JStr (lit ''assistant'')),
                            (lit ''content'', JNull)])]])]))
     booster question use_memory top_k = JNull"
  by (simp add: ask_cases extract_answer_def and_then_def)


section \<open>The query tokenizer against the index tokenizer\<close>

lemma keys_index_append:
  "set (map fst (index_append idx w chunk_id)) = insert w (set (map fst idx))"
  using set_keys_dict_set [of idx w] by (cases "map_of idx w") (simp_all add: index_append_def)

lemma long_keys_index_words:
  "\<forall>k\<in>set (map fst idx). 3 < length k \<Longrightarrow>
   \<forall>k\<in>set (map fst (index_words idx chunk_id ws)). 3 < length k"
proof (induction ws arbitrary: idx)
  case Nil
  then show ?case by simp
next
  case (Cons w ws)
  show ?case
  proof (cases "3 < length (py_strip punctuation w)")
    case True
    have "\<forall>k\<in>set (map fst (index_append idx (py_strip punctuation w) chunk_id)). 3 < length k"
      using Cons.prems True by (simp only: keys_index_append) simp
    from Cons.IH [OF this] True show ?thesis by (simp add: Let_def)
  next
    case False
    with Cons.IH [OF Cons.prems] show ?thesis by (simp add: Let_def)
  qed
qed

lemma long_keys_store_chunks:
  "\<forall>k\<in>set (map fst (index mem)). 3 < length k \<Longrightarrow>
   \<forall>k\<in>set (map fst (index (store_chunks P calls mem))). 3 < length k"
proof (induction calls rule: rev_induct)
  case Nil
  then show ?case by (simp add: store_chunks_Nil)
next
  case (snoc c calls)
  obtain rnd chunk_id body where c: "c = (rnd, chunk_id, body)" by (cases c)
  from snoc have "\<forall>k\<in>set (map fst (index (store_chunks P calls mem))). 3 < length k"
    by simp
  then show ?case
    unfolding c store_chunks_snoc index_store_chunk by (rule long_keys_index_words)
qed

lemma score_word_short:
  assumes "\<forall>k\<in>set (map fst idx). 3 < length k" and "\<not> 3 < length w"
  shows "score_word idx sc w = sc"
proof -
  have "w \<notin> fst ` set idx" using assms by auto
  then have "map_of idx w = None" by (simp add: map_of_eq_None_iff)
  then show ?thesis by (simp add: score_word_def)
qed

lemma score_words_long:
  assumes "\<forall>k\<in>set (map fst idx). 3 < length k"
  shows "foldl (score_word idx) sc ws = foldl (score_word idx) sc (filter (\<lambda>w. 3 < length w) ws)"
  by (induction ws arbitrary: sc) (simp_all add: score_word_short [OF assms])


text \<open>
  C3. The claim: the query tokenizer of \<open>retrieve_relevant_context\<close> and the tokenizer of
  the keyword loop of \<open>store_chunk\<close> are the same function. They are not: the query
  tokenizer tests the length of the word before stripping and lower-casing, the index
  tokenizer after. On \<open>fox.\<close> the query tokenizer keeps \<open>fox\<close>, the index loop stores
  nothing. On the three characters U+0130, \<open>a\<close>, \<open>b\<close> the query tokenizer keeps nothing,
  while the lower-cased text has four characters and the index tokenizer keeps them.
\<close>

theorem query_tokenizer_counterexample:
  "query_words demo_python (lit ''fox.'') = [lit ''fox''] \<and>
   spec_tokens demo_python (lit ''fox.'') = [] \<and>
   index_words [] (lit ''a'') (py_split (py_lower demo_python (lit ''fox.''))) = [] \<and>
   query_words demo_python ([0x130] @ lit ''ab'') = [] \<and>
   spec_tokens demo_python ([0x130] @ lit ''ab'') = [[0x69, 0x307] @ lit ''ab'']"
  by (simp add: query_words_def spec_tokens_def py_split_def is_space_def py_lower_def
      is_ascii_def lower_char_def demo_python_def py_strip_def punctuation_def lit_def)

text \<open>
  C3 as the code has it, for a query whose words lower-casing keeps (it changes neither
  where the query splits nor the length of any word; every ASCII query is one): the query
  tokens of more than 3 characters are exactly the tokens of the specification's rule, in
  order, and the keyword loop appends the chunk id under exactly these tokens. So the
  query tokenizer yields the index tokens and, between them, the stripped words of at
  most 3 characters whose unstripped form was longer. On every memory built by
  \<open>store_chunk\<close> calls all index keys are longer than 3 characters, so these extra tokens
  match nothing: the scores are those of the index tokens of the query.
\<close>

theorem query_tokens_long_are_index_tokens:
  assumes "lower_keeps_words P q"
  shows "filter (\<lambda>w. 3 < length w) (query_words P q) = spec_tokens P q \<and>
   index_words idx chunk_id (py_split (py_lower P q)) =
     foldl (\<lambda>i w. index_append i w chunk_id) idx (spec_tokens P q) \<and>
   score_chunks (index (store_chunks P calls (GravitationalMemory_init L))) (query_words P q) =
     score_chunks (index (store_chunks P calls (GravitationalMemory_init L))) (spec_tokens P q) \<and>
   (is_ascii t \<longrightarrow> lower_keeps_words P t)"
proof -
  have "\<forall>k\<in>set (map fst (index (GravitationalMemory_init L))). 3 < length k"
    by (simp add: GravitationalMemory_init_def)
  then have "\<forall>k\<in>set (map fst (index (store_chunks P calls (GravitationalMemory_init L)))).
      3 < length k"
    by (rule long_keys_store_chunks)
  from score_words_long [OF this]
  have "score_chunks (index (store_chunks P calls (GravitationalMemory_init L))) (query_words P q) =
     score_chunks (index (store_chunks P calls (GravitationalMemory_init L))) (spec_tokens P q)"
    by (simp add: score_chunks_def flip: long_query_words [OF assms])
  then show ?thesis
    by (simp add: long_query_words [OF assms] index_words_fold spec_tokens_def
        ascii_lower_keeps_words)
qed

theorem query_tokens_long_are_index_tokens_witness:
  "lower_keeps_words demo_python (lit ''The fox. jumped'') \<and>
   query_words demo_python (lit ''The fox. jumped'') = [lit ''fox'', lit ''jumped''] \<and>
   spec_tokens demo_python (lit ''The fox. jumped'') = [lit ''jumped'']"
proof -
  have ascii: "is_ascii (lit ''The fox. jumped'')"
    by (simp add: is_ascii_def lit_def)
  have keeps: "lower_keeps_words demo_python (lit ''The fox. jumped'')"
    by (rule ascii_lower_keeps_words [OF ascii])
  have q: "query_words demo_python (lit ''The fox. jumped'') = [lit ''fox'', lit ''jumped'']"
    by (simp add: query_words_def py_split_def is_space_def py_lower_def is_ascii_def
        lower_char_def py_strip_def punctuation_def lit_def)
  from query_tokens_long_are_index_tokens [OF keeps]
  have "filter (\<lambda>w. 3 < length w) (query_words demo_python (lit ''The fox. jumped'')) =
        spec_tokens demo_python (lit ''The fox. jumped'')"
    by (rule conjunct1)
  then have "spec_tokens demo_python (lit ''The fox. jumped'') = [lit ''jumped'']"
    by (simp add: q)
  with keeps q show ?thesis by simp
qed

section \<open>The compression ratio of store_document\<close>

























end
